theory Spec2Isabelle
  imports Main "HOL-Library.Sublist"
begin

section \<open>A shallow embedding of the 1Password CLI wrapper (onepassword.py)\<close>

text \<open>
  The library builds an argument vector, runs the external \<^verbatim>\<open>op\<close> tool with
  \<^verbatim>\<open>subprocess.run\<close>, and decodes what the tool printed. Everything outside the
  repository (the operating system that launches the process, \<^verbatim>\<open>json.loads\<close>,
  \<^verbatim>\<open>packaging.version.Version\<close>) is a parameter of the model, collected in the
  record \<open>host\<close>; every \<^verbatim>\<open>raise\<close> is a value \<open>Inl e\<close> of the result.
  Python \<^verbatim>\<open>str\<close> and \<^verbatim>\<open>bytes\<close> are both \<open>string\<close> (a list of 8-bit characters).
\<close>

subsection \<open>Exceptions\<close>

text \<open>
  The four exception classes of \<^verbatim>\<open>exceptions.py\<close>, each carrying its \<^verbatim>\<open>msg\<close>, and
  the exceptions of Python and its libraries that reach this code:
  \<open>FileNotFoundError\<close> (the program to launch does not exist),
  \<open>JSONDecodeError\<close> (carrying its text, \<^verbatim>\<open>str(e)\<close>),
  \<open>KeyError\<close> (carrying the missing key),
  \<open>TypeError\<close> (carrying the name of the type that was subscripted with a string),
  \<open>InvalidVersion\<close> (carrying the text that is no version),
  and \<open>OtherException\<close> (class name and text) for any other class, such as
  \<^verbatim>\<open>PermissionError\<close> or \<^verbatim>\<open>UnicodeDecodeError\<close>.
\<close>

datatype exn =
    OnePasswordCLINotFound string
  | OnePasswordValueNotFound string
  | OnePasswordJSONError string
  | OnePasswordRuntimeError string
  | FileNotFoundError string
  | JSONDecodeError string
  | KeyError string
  | TypeError string
  | InvalidVersion string
  | OtherException string string

subsection \<open>Decoded JSON\<close>

text \<open>
  What \<^verbatim>\<open>json.loads\<close> returns: \<^verbatim>\<open>None\<close>, a bool, an int, a float (kept as its
  literal), a str, a list or a dict (an association list; a Python dict has no
  repeated key, and the lookup below takes the first binding).
\<close>

datatype json =
    JNull
  | JBool bool
  | JInt int
  | JFloat string
  | JStr string
  | JList "json list"
  | JDict "(string \<times> json) list"

text \<open>\<^verbatim>\<open>obj[key]\<close> for a string key: only a dict can answer; a missing key raises
  \<^verbatim>\<open>KeyError\<close>, every other type raises \<^verbatim>\<open>TypeError\<close>.\<close>

fun getitem :: "json \<Rightarrow> string \<Rightarrow> exn + json" where
  "getitem (JDict kvs) key =
     (case map_of kvs key of None \<Rightarrow> Inl (KeyError key) | Some v \<Rightarrow> Inr v)"
| "getitem (JList xs) key = Inl (TypeError ''list'')"
| "getitem (JStr s) key = Inl (TypeError ''str'')"
| "getitem (JInt i) key = Inl (TypeError ''int'')"
| "getitem (JFloat f) key = Inl (TypeError ''float'')"
| "getitem (JBool b) key = Inl (TypeError ''bool'')"
| "getitem JNull key = Inl (TypeError ''NoneType'')"

subsection \<open>String formatting\<close>

text \<open>\<^verbatim>\<open>sep.join(xs)\<close>.\<close>

fun join :: "string \<Rightarrow> string list \<Rightarrow> string" where
  "join sep [] = []"
| "join sep [x] = x"
| "join sep (x # y # ys) = x @ sep @ join sep (y # ys)"

text \<open>
  An f-string formats a \<^verbatim>\<open>bytes\<close> value by its \<^verbatim>\<open>repr\<close>: the letter b, a quote, the
  bytes with the quote, the backslash, tab, newline, carriage return and every byte
  outside the printable ASCII range escaped, and the quote again. The quote is the
  single quote, unless the bytes hold a single quote and no double quote.
\<close>

definition hexdigit :: "nat \<Rightarrow> char" where
  "hexdigit n = ''0123456789abcdef'' ! n"

definition escape :: "char \<Rightarrow> char \<Rightarrow> string" where
  "escape quote c =
     (if c = quote \<or> c = CHR 0x5C then [CHR 0x5C, c]
      else if c = CHR 0x09 then [CHR 0x5C, CHR ''t'']
      else if c = CHR 0x0A then [CHR 0x5C, CHR ''n'']
      else if c = CHR 0x0D then [CHR 0x5C, CHR ''r'']
      else if (of_char c :: nat) < 0x20 \<or> (of_char c :: nat) \<ge> 0x7F
        then [CHR 0x5C, CHR ''x'', hexdigit (of_char c div 16), hexdigit (of_char c mod 16)]
      else [c])"

definition quote_for :: "string \<Rightarrow> char" where
  "quote_for s = (if CHR 0x27 \<in> set s \<and> CHR 0x22 \<notin> set s then CHR 0x22 else CHR 0x27)"

definition quoted :: "string \<Rightarrow> string" where
  "quoted s = [quote_for s] @ concat (map (escape (quote_for s)) s) @ [quote_for s]"

definition bytes_repr :: "string \<Rightarrow> string" where
  "bytes_repr bs = CHR ''b'' # quoted bs"

text \<open>\<^verbatim>\<open>str(e)\<close> of a \<^verbatim>\<open>KeyError\<close> is the \<^verbatim>\<open>repr\<close> of the missing key, which for
  a key of ASCII text is the key quoted as above.\<close>

definition str_KeyError :: "string \<Rightarrow> string" where
  "str_KeyError key = quoted key"

subsection \<open>The host: process launching and the two library functions\<close>

text \<open>\<^verbatim>\<open>subprocess.CompletedProcess\<close>: the exit status and the two captured streams.\<close>

record completed_process =
  returncode :: int
  stdout :: string
  stderr :: string

text \<open>
  \<open>spawn h earlier cmd text\<close> is what \<^verbatim>\<open>subprocess.run(cmd, capture_output=True, text=text)\<close>
  gives after the launches \<open>earlier\<close>: an exception, or the completed process.
  \<open>json_loads\<close> is \<^verbatim>\<open>json.loads\<close>; \<open>Version\<close> is the version parser, \<open>None\<close> where it
  raises \<^verbatim>\<open>InvalidVersion\<close>.
\<close>

record 'v host =
  spawn :: "string list list \<Rightarrow> string list \<Rightarrow> bool \<Rightarrow> exn + completed_process"
  json_loads :: "string \<Rightarrow> exn + json"
  Version :: "string \<Rightarrow> 'v option"

text \<open>The state threaded through every call is the list of argument vectors launched so far.\<close>

type_synonym trace = "string list list"

definition subprocess_run ::
  "'v host \<Rightarrow> string list \<Rightarrow> bool \<Rightarrow> trace \<Rightarrow> (exn + completed_process) \<times> trace" where
  "subprocess_run h cmd text tr = (spawn h tr cmd text, tr @ [cmd])"

subsection \<open>Module-level functions\<close>

definition get_op_cli_version :: "'v host \<Rightarrow> trace \<Rightarrow> (exn + 'v) \<times> trace" where
  "get_op_cli_version h tr =
     (let cmd = [''op'', ''--version''] in
      case subprocess_run h cmd True tr of
        (Inl (FileNotFoundError m), tr') \<Rightarrow>
          (Inl (OnePasswordCLINotFound ''Cannot find `op`, do you have 1password-cli installed?''), tr')
      | (Inl e, tr') \<Rightarrow> (Inl e, tr')
      | (Inr r, tr') \<Rightarrow>
          (case Version h (stdout r) of
             None \<Rightarrow> (Inl (InvalidVersion (stdout r)), tr')
           | Some v \<Rightarrow> (Inr v, tr')))"

text \<open>\<^verbatim>\<open>_run_cmd\<close> of the source.\<close>

definition run_cmd ::
  "'v host \<Rightarrow> string list \<Rightarrow> trace \<Rightarrow> (exn + completed_process) \<times> trace" where
  "run_cmd h cmd tr =
     (case subprocess_run h cmd False tr of
        (Inl e, tr') \<Rightarrow> (Inl e, tr')
      | (Inr r, tr') \<Rightarrow>
          if returncode r \<noteq> 0
          then (Inl (OnePasswordRuntimeError
                  (''Encountered an error when calling subprocess, got: '' @ bytes_repr (stderr r))), tr')
          else (Inr r, tr'))"

definition list_vaults :: "'v host \<Rightarrow> trace \<Rightarrow> (exn + json) \<times> trace" where
  "list_vaults h tr =
     (let cmd = [''op'', ''vault'', ''list'', ''--format'', ''json''] in
      case run_cmd h cmd tr of
        (Inl e, tr') \<Rightarrow> (Inl e, tr')
      | (Inr r, tr') \<Rightarrow> (json_loads h (stdout r), tr'))"

subsection \<open>The class OnePassword\<close>

record 'v OnePassword =
  op_cli_version :: 'v
  vault :: string

text \<open>\<^verbatim>\<open>__init__(self, vault="Private")\<close>: \<open>None\<close> is the omitted argument.\<close>

definition OnePassword_init ::
  "'v host \<Rightarrow> string option \<Rightarrow> trace \<Rightarrow> (exn + 'v OnePassword) \<times> trace" where
  "OnePassword_init h vault_arg tr =
     (let vault = (case vault_arg of None \<Rightarrow> ''Private'' | Some v \<Rightarrow> v) in
      case get_op_cli_version h tr of
        (Inl e, tr') \<Rightarrow> (Inl e, tr')
      | (Inr ver, tr') \<Rightarrow> (Inr \<lparr>op_cli_version = ver, vault = vault\<rparr>, tr'))"

text \<open>
  A method takes \<open>self\<close> and returns it with its result, so that an assignment to an
  attribute would show. The loop of \<^verbatim>\<open>get_item\<close> that appends \<^verbatim>\<open>f"label={field}"\<close> to
  \<^verbatim>\<open>_fields\<close> is \<open>label_loop\<close>; \<open>None\<close> is an omitted list argument, and
  \<^verbatim>\<open>if fields:\<close> is false for \<open>None\<close> and for the empty list.
\<close>

fun label_loop :: "string list \<Rightarrow> string list \<Rightarrow> string list" where
  "label_loop acc [] = acc"
| "label_loop acc (field # rest) = label_loop (acc @ [''label='' @ field]) rest"

text \<open>The truth value of an optional list argument in \<^verbatim>\<open>if xs:\<close>.\<close>

definition truthy :: "string list option \<Rightarrow> bool" where
  "truthy xs = (case xs of None \<Rightarrow> False | Some ys \<Rightarrow> ys \<noteq> [])"

text \<open>
  Each method that launches the tool first builds its argument vector and then hands it
  to \<^verbatim>\<open>_run_cmd\<close>. The vector is a function of its own here (\<open>get_item_cmd\<close>,
  \<open>get_document_cmd\<close>, \<open>list_items_cmd\<close>: the statements of the method up to the call of
  \<^verbatim>\<open>_run_cmd\<close>), so that a theorem can name what was launched.
\<close>

definition get_item_cmd :: "'v OnePassword \<Rightarrow> string \<Rightarrow> string list option \<Rightarrow> string list" where
  "get_item_cmd self item flds =
     (let cmd = [''op'', ''item'', ''get'', item, ''--format'', ''json'', ''--vault'', vault self] in
      if truthy flds
      then cmd @ [''--fields'', join '','' (label_loop [] (case flds of None \<Rightarrow> [] | Some fs \<Rightarrow> fs))]
      else cmd)"

definition get_item ::
  "'v host \<Rightarrow> 'v OnePassword \<Rightarrow> string \<Rightarrow> string list option \<Rightarrow> trace
     \<Rightarrow> (exn + json) \<times> 'v OnePassword \<times> trace" where
  "get_item h self item flds tr =
     (case run_cmd h (get_item_cmd self item flds) tr of
        (Inl e, tr') \<Rightarrow> (Inl e, self, tr')
      | (Inr r, tr') \<Rightarrow>
          (case json_loads h (stdout r) of
             Inl (JSONDecodeError m) \<Rightarrow>
               (Inl (OnePasswordJSONError (''Cannot JSON load response from 1Password. Got '' @ m)),
                self, tr')
           | Inl e \<Rightarrow> (Inl e, self, tr')
           | Inr v \<Rightarrow> (Inr v, self, tr')))"

text \<open>\<^verbatim>\<open>except KeyError as e: raise OnePasswordValueNotFound(...)\<close>, around a whole
  \<^verbatim>\<open>try\<close> body.\<close>

fun except_KeyError :: "exn + 'a \<Rightarrow> exn + 'a" where
  "except_KeyError (Inl (KeyError key)) =
     Inl (OnePasswordValueNotFound (''Value not found. Got error: '' @ str_KeyError key))"
| "except_KeyError r = r"

definition subscript :: "exn + json \<Rightarrow> string \<Rightarrow> exn + json" where
  "subscript r key = (case r of Inl e \<Rightarrow> Inl e | Inr v \<Rightarrow> getitem v key)"

definition get_value ::
  "'v host \<Rightarrow> 'v OnePassword \<Rightarrow> string \<Rightarrow> string \<Rightarrow> trace
     \<Rightarrow> (exn + json) \<times> 'v OnePassword \<times> trace" where
  "get_value h self item field tr =
     (case get_item h self item (Some [field]) tr of
        (r, self', tr') \<Rightarrow> (except_KeyError (subscript r ''value''), self', tr'))"

definition get_username ::
  "'v host \<Rightarrow> 'v OnePassword \<Rightarrow> string \<Rightarrow> trace \<Rightarrow> (exn + json) \<times> 'v OnePassword \<times> trace" where
  "get_username h self item tr = get_value h self item ''username'' tr"

definition get_password ::
  "'v host \<Rightarrow> 'v OnePassword \<Rightarrow> string \<Rightarrow> trace \<Rightarrow> (exn + json) \<times> 'v OnePassword \<times> trace" where
  "get_password h self item tr = get_value h self item ''password'' tr"

definition get_uuid ::
  "'v host \<Rightarrow> 'v OnePassword \<Rightarrow> string \<Rightarrow> trace \<Rightarrow> (exn + json) \<times> 'v OnePassword \<times> trace" where
  "get_uuid h self item tr =
     (case get_item h self item None tr of
        (r, self', tr') \<Rightarrow> (except_KeyError (subscript r ''id''), self', tr'))"

definition get_document_cmd :: "'v OnePassword \<Rightarrow> string \<Rightarrow> string list" where
  "get_document_cmd self item = [''op'', ''document'', ''get'', item, ''--vault'', vault self]"

definition get_document ::
  "'v host \<Rightarrow> 'v OnePassword \<Rightarrow> string \<Rightarrow> trace \<Rightarrow> (exn + string) \<times> 'v OnePassword \<times> trace" where
  "get_document h self item tr =
     (case run_cmd h (get_document_cmd self item) tr of
        (Inl e, tr') \<Rightarrow> (Inl e, self, tr')
      | (Inr r, tr') \<Rightarrow> (Inr (stdout r), self, tr'))"

definition list_items_cmd ::
  "'v OnePassword \<Rightarrow> string list option \<Rightarrow> string list option \<Rightarrow> string list" where
  "list_items_cmd self categories tags =
     (let cmd = [''op'', ''items'', ''list'', ''--vault'', vault self, ''--format'', ''json''];
          cmd = (if truthy categories
                 then cmd @ [''--categories'', join '','' (case categories of None \<Rightarrow> [] | Some cs \<Rightarrow> cs)]
                 else cmd);
          cmd = (if truthy tags
                 then cmd @ [''--tags'', join '','' (case tags of None \<Rightarrow> [] | Some ts \<Rightarrow> ts)]
                 else cmd)
      in cmd)"

definition list_items ::
  "'v host \<Rightarrow> 'v OnePassword \<Rightarrow> string list option \<Rightarrow> string list option \<Rightarrow> trace
     \<Rightarrow> (exn + json) \<times> 'v OnePassword \<times> trace" where
  "list_items h self categories tags tr =
     (case run_cmd h (list_items_cmd self categories tags) tr of
        (Inl e, tr') \<Rightarrow> (Inl e, self, tr')
      | (Inr r, tr') \<Rightarrow> (json_loads h (stdout r), self, tr'))"

text \<open>The four exception classes the library defines.\<close>

fun typed :: "exn \<Rightarrow> bool" where
  "typed (OnePasswordCLINotFound m) = True"
| "typed (OnePasswordValueNotFound m) = True"
| "typed (OnePasswordJSONError m) = True"
| "typed (OnePasswordRuntimeError m) = True"
| "typed e = False"

text \<open>The argument vectors launched by a method call: the last component of its result.\<close>

definition launched :: "'a \<times> 'b \<times> trace \<Rightarrow> trace" where
  "launched res = snd (snd res)"

text \<open>The client a method call leaves behind: the middle component of its result.\<close>

definition client_after :: "'a \<times> 'b \<times> trace \<Rightarrow> 'b" where
  "client_after res = fst (snd res)"

text \<open>A byte that \<open>escape\<close> leaves as it is, whichever quote is chosen.\<close>

definition plain :: "char \<Rightarrow> bool" where
  "plain c = ((of_char c :: nat) \<ge> 0x20 \<and> (of_char c :: nat) < 0x7F
              \<and> c \<noteq> CHR 0x5C \<and> c \<noteq> CHR 0x27 \<and> c \<noteq> CHR 0x22)"

text \<open>The value of a hexadecimal digit, for reading an escaped byte back.\<close>

definition hexval :: "char \<Rightarrow> nat" where
  "hexval c = (if (of_char c :: nat) < 0x3A then of_char c - 0x30 else of_char c - 0x57)"

subsection \<open>Example hosts\<close>

text \<open>
  Concrete hosts on which the theorems below are run. The tool's answers are taken from
  the repository's unit tests: version text \<^verbatim>\<open>2.23.0\<close> with a newline, a failing run
  with \<^verbatim>\<open>I have failed\<close> on standard error, the output \<^verbatim>\<open>Invalid JSON\<close>, and small JSON
  documents. \<open>example_loads\<close> and \<open>example_Version\<close> tabulate what the two library
  functions answer on exactly these texts.
\<close>

definition example_Version :: "string \<Rightarrow> nat list option" where
  "example_Version s = (if s = ''2.23.0'' @ [CHR 0x0A] then Some [2, 23, 0] else None)"

definition value_doc :: string where
  \<open>value_doc = ''{"value": "bar"}''\<close>

definition other_key_doc :: string where
  \<open>other_key_doc = ''{"other_key": "other_value"}''\<close>

definition id_doc :: string where
  \<open>id_doc = ''{"id": "some_valid_uuid"}''\<close>

definition nonexistent_doc :: string where
  \<open>nonexistent_doc = ''{"nonexistent": 1}''\<close>

definition array_doc :: string where
  \<open>array_doc = ''[{"id": "item1", "value": "bar"}]''\<close>

definition example_loads :: "string \<Rightarrow> exn + json" where
  "example_loads s =
     (if s = value_doc then Inr (JDict [(''value'', JStr ''bar'')])
      else if s = other_key_doc then Inr (JDict [(''other_key'', JStr ''other_value'')])
      else if s = id_doc then Inr (JDict [(''id'', JStr ''some_valid_uuid'')])
      else if s = nonexistent_doc then Inr (JDict [(''nonexistent'', JInt 1)])
      else if s = array_doc
        then Inr (JList [JDict [(''id'', JStr ''item1''), (''value'', JStr ''bar'')]])
      else Inl (JSONDecodeError ''Expecting value: line 1 column 1 (char 0)''))"

text \<open>The host on which every launch has the outcome \<open>out\<close>.\<close>

definition answering :: "exn + completed_process \<Rightarrow> nat list host" where
  "answering out =
     \<lparr>spawn = (\<lambda>earlier cmd text. out), json_loads = example_loads, Version = example_Version\<rparr>"

definition printed :: "string \<Rightarrow> exn + completed_process" where
  "printed out = Inr \<lparr>returncode = 0, stdout = out, stderr = []\<rparr>"

definition failed :: "int \<Rightarrow> string \<Rightarrow> string \<Rightarrow> exn + completed_process" where
  "failed code out err = Inr \<lparr>returncode = code, stdout = out, stderr = err\<rparr>"

definition missing :: "exn + completed_process" where
  "missing = Inl (FileNotFoundError ''[Errno 2] No such file or directory: op'')"

definition version_text :: string where
  "version_text = ''2.23.0'' @ [CHR 0x0A]"

definition private_client :: "nat list OnePassword" where
  "private_client = \<lparr>op_cli_version = [2, 23, 0], vault = ''Private''\<rparr>"

section \<open>Properties\<close>

subsection \<open>Launching\<close>

lemma subprocess_run_once: "snd (subprocess_run h cmd text tr) = tr @ [cmd]"
  by (simp add: subprocess_run_def)

lemma run_cmd_once: "snd (run_cmd h cmd tr) = tr @ [cmd]"
  by (simp add: run_cmd_def subprocess_run_def split: sum.split)

lemma run_cmd_raised:
  "spawn h tr cmd False = Inl e \<Longrightarrow> run_cmd h cmd tr = (Inl e, tr @ [cmd])"
  by (simp add: run_cmd_def subprocess_run_def)

lemma run_cmd_zero:
  "spawn h tr cmd False = Inr r \<Longrightarrow> returncode r = 0 \<Longrightarrow> run_cmd h cmd tr = (Inr r, tr @ [cmd])"
  by (simp add: run_cmd_def subprocess_run_def)

lemma run_cmd_nonzero:
  "spawn h tr cmd False = Inr r \<Longrightarrow> returncode r \<noteq> 0 \<Longrightarrow>
   run_cmd h cmd tr =
     (Inl (OnePasswordRuntimeError
        (''Encountered an error when calling subprocess, got: '' @ bytes_repr (stderr r))),
      tr @ [cmd])"
  by (simp add: run_cmd_def subprocess_run_def)

lemma run_cmd_Inr_zero:
  "run_cmd h cmd tr = (Inr r, tr') \<Longrightarrow> spawn h tr cmd False = Inr r \<and> returncode r = 0"
  by (auto simp: run_cmd_def subprocess_run_def split: sum.splits if_splits)

subsection \<open>The repr of bytes\<close>

lemma escape_plain: "plain c \<Longrightarrow> escape q c = (if c = q then [CHR 0x5C, c] else [c])"
  by (auto simp: escape_def plain_def)

lemma concat_escape_plain:
  "\<forall>c \<in> set s. plain c \<Longrightarrow> concat (map (escape (CHR 0x27)) s) = s"
  by (induction s) (auto simp: escape_plain plain_def)

lemma quote_for_plain: "\<forall>c \<in> set s. plain c \<Longrightarrow> quote_for s = CHR 0x27"
  by (auto simp: quote_for_def plain_def)

lemma bytes_repr_plain:
  "\<forall>c \<in> set s. plain c \<Longrightarrow> bytes_repr s = ''b'' @ [CHR 0x27] @ s @ [CHR 0x27]"
  by (simp add: bytes_repr_def quoted_def quote_for_plain concat_escape_plain)

text \<open>The repr loses nothing: every escape starts differently, so the bytes can be read back.\<close>

lemma hexval_hexdigit: "n < 16 \<Longrightarrow> hexval (hexdigit n) = n"
proof -
  have "list_all (\<lambda>k. hexval (hexdigit k) = k) [0..<16]"
    by code_simp
  then show "n < 16 \<Longrightarrow> hexval (hexdigit n) = n"
    by (simp add: list_all_iff)
qed

lemma hex_pair_inj:
  assumes "hexdigit (of_char c div 16) = hexdigit (of_char d div 16)"
    and "hexdigit (of_char c mod 16) = hexdigit (of_char d mod 16)"
  shows "c = d"
proof -
  have c: "(of_char c :: nat) < 256" and d: "(of_char d :: nat) < 256"
    by (simp_all add: of_char_def)
  then have "(of_char c :: nat) div 16 < 16" "(of_char d :: nat) div 16 < 16" by arith+
  with assms(1) have hi: "(of_char c :: nat) div 16 = of_char d div 16"
    by (metis hexval_hexdigit)
  have "(of_char c :: nat) mod 16 < 16" "(of_char d :: nat) mod 16 < 16" by simp_all
  with assms(2) have lo: "(of_char c :: nat) mod 16 = of_char d mod 16"
    by (metis hexval_hexdigit)
  from hi lo have "(of_char c :: nat) = of_char d"
    by (metis div_mult_mod_eq)
  then show ?thesis by simp
qed

lemma escape_nonempty: "escape q c \<noteq> []"
  by (simp add: escape_def)

lemma escape_prefix_code:
  assumes q: "q = CHR 0x27 \<or> q = CHR 0x22"
    and e: "escape q c @ xs = escape q d @ ys"
  shows "c = d \<and> xs = ys"
  using q e
  by (auto simp: escape_def split: if_splits dest: hex_pair_inj)

lemma concat_escape_inj:
  assumes q: "q = CHR 0x27 \<or> q = CHR 0x22"
  shows "concat (map (escape q) s) = concat (map (escape q) t) \<Longrightarrow> s = t"
proof (induction s arbitrary: t)
  case Nil
  then show ?case by (cases t) (simp_all add: escape_nonempty)
next
  case (Cons c s)
  show ?case
  proof (cases t)
    case Nil
    with Cons.prems show ?thesis by (simp add: escape_nonempty)
  next
    case (Cons d t')
    with Cons.prems have "escape q c @ concat (map (escape q) s) = escape q d @ concat (map (escape q) t')"
      by simp
    from escape_prefix_code [OF q this] Cons.IH Cons show ?thesis by simp
  qed
qed

lemma quote_for_cases: "quote_for s = CHR 0x27 \<or> quote_for s = CHR 0x22"
  by (simp add: quote_for_def)

lemma quoted_inj: "quoted s = quoted t \<Longrightarrow> s = t"
proof -
  assume e: "quoted s = quoted t"
  then have q: "quote_for s = quote_for t" by (simp add: quoted_def)
  with e have "concat (map (escape (quote_for s)) s) = concat (map (escape (quote_for s)) t)"
    by (simp add: quoted_def)
  with concat_escape_inj [OF quote_for_cases] show "s = t" by blast
qed

lemma bytes_repr_inj: "bytes_repr s = bytes_repr t \<Longrightarrow> s = t"
  by (simp add: bytes_repr_def quoted_inj)

subsection \<open>The process invoker\<close>

text \<open>
  Claim C3 says that \<^verbatim>\<open>_run_cmd\<close> returns the captured standard-output bytes and that
  the message of its \<open>OnePasswordRuntimeError\<close> includes the captured standard-error text.
  What it returns is the completed process, with exit status and standard error beside
  the standard output. The message holds the standard error as an f-string formats
  bytes: for the standard error \<^verbatim>\<open>boom\<close> followed by a newline, the message ends in
  \<^verbatim>\<open>b'boom\n'\<close> with a backslash and the letter n, and the text with its newline is
  not part of it.
\<close>

theorem run_cmd_message_escapes:
  "run_cmd (answering (failed 1 [] (''boom'' @ [CHR 0x0A])))
       [''op'', ''vault'', ''list'', ''--format'', ''json''] []
     = (Inl (OnePasswordRuntimeError
          (''Encountered an error when calling subprocess, got: b'' @ [CHR 0x27] @ ''boom''
             @ [CHR 0x5C, CHR ''n'', CHR 0x27])),
        [[''op'', ''vault'', ''list'', ''--format'', ''json'']])
   \<and> \<not> sublist (''boom'' @ [CHR 0x0A])
         (''Encountered an error when calling subprocess, got: b'' @ [CHR 0x27] @ ''boom''
            @ [CHR 0x5C, CHR ''n'', CHR 0x27])
   \<and> fst (run_cmd (answering (Inr \<lparr>returncode = 0, stdout = ''[]'', stderr = ''warning''\<rparr>))
         [''op'', ''vault'', ''list'', ''--format'', ''json''] [])
     = Inr \<lparr>returncode = 0, stdout = ''[]'', stderr = ''warning''\<rparr>"
proof -
  have m: "run_cmd (answering (failed 1 [] (''boom'' @ [CHR 0x0A])))
       [''op'', ''vault'', ''list'', ''--format'', ''json''] []
     = (Inl (OnePasswordRuntimeError
          (''Encountered an error when calling subprocess, got: b'' @ [CHR 0x27] @ ''boom''
             @ [CHR 0x5C, CHR ''n'', CHR 0x27])),
        [[''op'', ''vault'', ''list'', ''--format'', ''json'']])"
    by (simp add: run_cmd_def subprocess_run_def answering_def failed_def bytes_repr_def
        quoted_def quote_for_def escape_def)
  have "CHR 0x0A \<notin> set (''Encountered an error when calling subprocess, got: b'' @ [CHR 0x27] @ ''boom''
            @ [CHR 0x5C, CHR ''n'', CHR 0x27])"
    by simp
  moreover have "CHR 0x0A \<in> set (''boom'' @ [CHR 0x0A])"
    by simp
  ultimately have n: "\<not> sublist (''boom'' @ [CHR 0x0A])
         (''Encountered an error when calling subprocess, got: b'' @ [CHR 0x27] @ ''boom''
            @ [CHR 0x5C, CHR ''n'', CHR 0x27])"
    using set_mono_sublist by blast
  have z: "fst (run_cmd (answering (Inr \<lparr>returncode = 0, stdout = ''[]'', stderr = ''warning''\<rparr>))
         [''op'', ''vault'', ''list'', ''--format'', ''json''] [])
     = Inr \<lparr>returncode = 0, stdout = ''[]'', stderr = ''warning''\<rparr>"
    by (simp add: run_cmd_def subprocess_run_def answering_def)
  from m n z show ?thesis by blast
qed

text \<open>
  Claim C3, amended. For every argument vector whose launch completes, \<^verbatim>\<open>_run_cmd\<close>
  returns the completed process (whose \<open>stdout\<close> field is the captured standard output)
  when the exit status is zero; when it is not zero it raises \<open>OnePasswordRuntimeError\<close>,
  and the message is a fixed text followed by the captured standard error formatted as
  an f-string formats bytes (\<open>bytes_repr\<close>). Standard error made of plain printable bytes
  stands in the message as it is, and in every case the message determines the standard
  error. Either way the command was launched once.
\<close>

theorem run_cmd_exit_status:
  assumes "spawn h tr cmd False = Inr r"
  shows "(returncode r = 0 \<longrightarrow> run_cmd h cmd tr = (Inr r, tr @ [cmd]))
       \<and> (returncode r \<noteq> 0 \<longrightarrow>
            run_cmd h cmd tr =
              (Inl (OnePasswordRuntimeError
                 (''Encountered an error when calling subprocess, got: '' @ bytes_repr (stderr r))),
               tr @ [cmd]))
       \<and> ((\<forall>c \<in> set (stderr r). plain c) \<longrightarrow>
            sublist (stderr r)
              (''Encountered an error when calling subprocess, got: '' @ bytes_repr (stderr r)))
       \<and> (\<forall>err. ''Encountered an error when calling subprocess, got: '' @ bytes_repr err
                  = ''Encountered an error when calling subprocess, got: '' @ bytes_repr (stderr r)
                \<longrightarrow> err = stderr r)"
proof -
  let ?p = "''Encountered an error when calling subprocess, got: ''"
  have zero: "returncode r = 0 \<longrightarrow> run_cmd h cmd tr = (Inr r, tr @ [cmd])"
    using assms by (simp add: run_cmd_zero)
  have nonzero: "returncode r \<noteq> 0 \<longrightarrow>
      run_cmd h cmd tr = (Inl (OnePasswordRuntimeError (?p @ bytes_repr (stderr r))), tr @ [cmd])"
    using assms by (simp add: run_cmd_nonzero)
  have verbatim: "(\<forall>c \<in> set (stderr r). plain c) \<longrightarrow> sublist (stderr r) (?p @ bytes_repr (stderr r))"
  proof
    assume "\<forall>c \<in> set (stderr r). plain c"
    then have "?p @ bytes_repr (stderr r) = (?p @ ''b'' @ [CHR 0x27]) @ stderr r @ [CHR 0x27]"
      by (simp add: bytes_repr_plain)
    then show "sublist (stderr r) (?p @ bytes_repr (stderr r))"
      unfolding sublist_def by blast
  qed
  have determined: "\<forall>err. ?p @ bytes_repr err = ?p @ bytes_repr (stderr r) \<longrightarrow> err = stderr r"
    by (simp add: bytes_repr_inj)
  from zero nonzero verbatim determined show ?thesis by simp
qed

theorem run_cmd_exit_status_witness:
  "run_cmd (answering (printed (''2.23.0'' @ [CHR 0x0A]))) [''op'', ''--version''] []
     = (Inr \<lparr>returncode = 0, stdout = ''2.23.0'' @ [CHR 0x0A], stderr = []\<rparr>, [[''op'', ''--version'']])
   \<and> run_cmd (answering (failed 1 [] ''I have failed'')) [''nonexistent'', ''please'', ''fail''] []
     = (Inl (OnePasswordRuntimeError
          (''Encountered an error when calling subprocess, got: b'' @ [CHR 0x27] @ ''I have failed'' @ [CHR 0x27])),
        [[''nonexistent'', ''please'', ''fail'']])
   \<and> sublist ''I have failed''
       (''Encountered an error when calling subprocess, got: '' @ bytes_repr ''I have failed'')"
  using
    run_cmd_exit_status [of "answering (printed (''2.23.0'' @ [CHR 0x0A]))" "[]" "[''op'', ''--version'']"
      "\<lparr>returncode = 0, stdout = ''2.23.0'' @ [CHR 0x0A], stderr = []\<rparr>"]
    run_cmd_exit_status [of "answering (failed 1 [] ''I have failed'')" "[]" "[''nonexistent'', ''please'', ''fail'']"
      "\<lparr>returncode = 1, stdout = [], stderr = ''I have failed''\<rparr>"]
  by (simp add: answering_def printed_def failed_def plain_def bytes_repr_def quoted_def quote_for_def escape_def)

subsection \<open>What each method launches\<close>

lemma label_loop_map: "label_loop acc fs = acc @ map (\<lambda>f. ''label='' @ f) fs"
  by (induction fs arbitrary: acc) simp_all

lemma get_item_launched:
  "launched (get_item h self item flds tr) = tr @ [get_item_cmd self item flds]"
proof -
  obtain res tr' where r: "run_cmd h (get_item_cmd self item flds) tr = (res, tr')"
    by (cases "run_cmd h (get_item_cmd self item flds) tr")
  with run_cmd_once [of h "get_item_cmd self item flds" tr]
  have "tr' = tr @ [get_item_cmd self item flds]" by simp
  with r show ?thesis
    by (simp add: launched_def get_item_def split: sum.split exn.split)
qed

lemma get_value_launched:
  "launched (get_value h self item field tr) = tr @ [get_item_cmd self item (Some [field])]"
  using get_item_launched [of h self item "Some [field]" tr]
  by (auto simp: launched_def get_value_def split: prod.split)

lemma get_uuid_launched:
  "launched (get_uuid h self item tr) = tr @ [get_item_cmd self item None]"
  using get_item_launched [of h self item None tr]
  by (auto simp: launched_def get_uuid_def split: prod.split)

lemma get_document_launched:
  "launched (get_document h self item tr) = tr @ [get_document_cmd self item]"
proof -
  obtain res tr' where r: "run_cmd h (get_document_cmd self item) tr = (res, tr')"
    by (cases "run_cmd h (get_document_cmd self item) tr")
  with run_cmd_once [of h "get_document_cmd self item" tr]
  have "tr' = tr @ [get_document_cmd self item]" by simp
  with r show ?thesis
    by (simp add: launched_def get_document_def split: sum.split)
qed

lemma list_items_launched:
  "launched (list_items h self cats tags tr) = tr @ [list_items_cmd self cats tags]"
proof -
  obtain res tr' where r: "run_cmd h (list_items_cmd self cats tags) tr = (res, tr')"
    by (cases "run_cmd h (list_items_cmd self cats tags) tr")
  with run_cmd_once [of h "list_items_cmd self cats tags" tr]
  have "tr' = tr @ [list_items_cmd self cats tags]" by simp
  with r show ?thesis
    by (simp add: launched_def list_items_def split: sum.split)
qed

text \<open>
  Claim C5. For every vault name and item, \<^verbatim>\<open>get_item\<close> without a field list (or with
  an empty one) builds exactly \<^verbatim>\<open>op item get I --format json --vault V\<close>; whatever the
  field list, the call launches the vector it built exactly once (the trace grows by
  that one vector); and for a non-empty field list the vector is the same eight tokens
  followed by \<^verbatim>\<open>--fields\<close> and the labels, each prefixed \<^verbatim>\<open>label=\<close>, joined by commas
  in the given order.
\<close>

theorem get_item_argument_vector:
  "get_item_cmd self item None
     = [''op'', ''item'', ''get'', item, ''--format'', ''json'', ''--vault'', vault self]
   \<and> get_item_cmd self item (Some [])
     = [''op'', ''item'', ''get'', item, ''--format'', ''json'', ''--vault'', vault self]
   \<and> launched (get_item h self item flds tr) = tr @ [get_item_cmd self item flds]
   \<and> (fs \<noteq> [] \<longrightarrow>
        get_item_cmd self item (Some fs)
          = [''op'', ''item'', ''get'', item, ''--format'', ''json'', ''--vault'', vault self]
            @ [''--fields'', join '','' (map (\<lambda>f. ''label='' @ f) fs)])"
  by (simp add: get_item_launched get_item_cmd_def truthy_def label_loop_map)

theorem get_item_argument_vector_witness:
  "launched (get_item (answering (printed ''Invalid JSON'')) private_client ''Foo'' None [])
     = [[''op'', ''item'', ''get'', ''Foo'', ''--format'', ''json'', ''--vault'', ''Private'']]
   \<and> [''username'', ''password''] \<noteq> []
   \<and> get_item_cmd private_client ''Foo'' (Some [''username'', ''password''])
     = [''op'', ''item'', ''get'', ''Foo'', ''--format'', ''json'', ''--vault'', ''Private'',
        ''--fields'', ''label=username,label=password'']"
  using get_item_argument_vector
    [of private_client "''Foo''" "answering (printed ''Invalid JSON'')" None "[]" "[''username'', ''password'']"]
  by (simp add: private_client_def)

text \<open>
  Claim C6. For every call of \<^verbatim>\<open>list_items\<close> the vector starts with
  \<^verbatim>\<open>op items list --vault V --format json\<close>; \<^verbatim>\<open>--categories\<close> and the categories joined
  by commas in the caller's order follow exactly when the category list is given and
  not empty, then \<^verbatim>\<open>--tags\<close> and the joined tags exactly when the tag list is given and
  not empty; an omitted or empty list adds nothing. The call launches that vector once.
\<close>

theorem list_items_argument_vector:
  "list_items_cmd self cats tags
     = [''op'', ''items'', ''list'', ''--vault'', vault self, ''--format'', ''json'']
       @ (case cats of None \<Rightarrow> [] | Some [] \<Rightarrow> [] | Some (c # cs) \<Rightarrow> [''--categories'', join '','' (c # cs)])
       @ (case tags of None \<Rightarrow> [] | Some [] \<Rightarrow> [] | Some (t # ts) \<Rightarrow> [''--tags'', join '','' (t # ts)])
   \<and> launched (list_items h self cats tags tr) = tr @ [list_items_cmd self cats tags]"
  by (simp add: list_items_launched list_items_cmd_def truthy_def Let_def
      split: option.split list.split)

theorem list_items_argument_vector_witness:
  "list_items_cmd private_client (Some []) (Some [])
     = [''op'', ''items'', ''list'', ''--vault'', ''Private'', ''--format'', ''json'']
   \<and> list_items_cmd private_client None None
     = [''op'', ''items'', ''list'', ''--vault'', ''Private'', ''--format'', ''json'']
   \<and> list_items_cmd private_client (Some [''Login'', ''Password'']) (Some [''some_tag'', ''another_tag''])
     = [''op'', ''items'', ''list'', ''--vault'', ''Private'', ''--format'', ''json'',
        ''--categories'', ''Login,Password'', ''--tags'', ''some_tag,another_tag'']
   \<and> list_items_cmd private_client None (Some [''coffee''])
     = [''op'', ''items'', ''list'', ''--vault'', ''Private'', ''--format'', ''json'',
        ''--tags'', ''coffee'']"
  using
    list_items_argument_vector [of private_client "Some []" "Some []"]
    list_items_argument_vector [of private_client None None]
    list_items_argument_vector [of private_client "Some [''Login'', ''Password'']"
      "Some [''some_tag'', ''another_tag'']"]
    list_items_argument_vector [of private_client None "Some [''coffee'']"]
  by (simp add: private_client_def)

subsection \<open>Reading an entry of the decoded item\<close>

lemmas docs = value_doc_def other_key_doc_def id_doc_def nonexistent_doc_def array_doc_def

lemma str_KeyError_value: "str_KeyError ''value'' = [CHR 0x27] @ ''value'' @ [CHR 0x27]"
  by (simp add: str_KeyError_def quoted_def quote_for_def escape_def)

lemma str_KeyError_id: "str_KeyError ''id'' = [CHR 0x27] @ ''id'' @ [CHR 0x27]"
  by (simp add: str_KeyError_def quoted_def quote_for_def escape_def)

text \<open>
  Claim C7. \<^verbatim>\<open>get_value(item, field)\<close> calls \<^verbatim>\<open>get_item\<close> with the one field as the
  only selector (it launches \<^verbatim>\<open>... --fields label=<field>\<close>) and, when that call returns
  a dict, returns the dict's \<^verbatim>\<open>value\<close> entry, or raises \<open>OnePasswordValueNotFound\<close> when
  the dict has no such key. \<^verbatim>\<open>get_uuid(item)\<close> calls \<^verbatim>\<open>get_item\<close> with no field list
  and does the same with the key \<^verbatim>\<open>id\<close>.
\<close>

theorem get_value_get_uuid_entry:
  "(get_item h self item (Some [field]) tr = (Inr (JDict kvs), self', tr') \<longrightarrow>
      get_value h self item field tr =
        ((case map_of kvs ''value'' of
            Some v \<Rightarrow> Inr v
          | None \<Rightarrow> Inl (OnePasswordValueNotFound
                (''Value not found. Got error: '' @ [CHR 0x27] @ ''value'' @ [CHR 0x27]))),
         self', tr'))
   \<and> (get_item h self item None tr = (Inr (JDict kvs), self', tr') \<longrightarrow>
      get_uuid h self item tr =
        ((case map_of kvs ''id'' of
            Some v \<Rightarrow> Inr v
          | None \<Rightarrow> Inl (OnePasswordValueNotFound
                (''Value not found. Got error: '' @ [CHR 0x27] @ ''id'' @ [CHR 0x27]))),
         self', tr'))
   \<and> launched (get_value h self item field tr)
       = tr @ [[''op'', ''item'', ''get'', item, ''--format'', ''json'', ''--vault'', vault self,
                ''--fields'', ''label='' @ field]]
   \<and> launched (get_uuid h self item tr)
       = tr @ [[''op'', ''item'', ''get'', item, ''--format'', ''json'', ''--vault'', vault self]]"
proof -
  have v: "get_item h self item (Some [field]) tr = (Inr (JDict kvs), self', tr') \<longrightarrow>
      get_value h self item field tr =
        ((case map_of kvs ''value'' of
            Some v \<Rightarrow> Inr v
          | None \<Rightarrow> Inl (OnePasswordValueNotFound
                (''Value not found. Got error: '' @ [CHR 0x27] @ ''value'' @ [CHR 0x27]))),
         self', tr')"
    by (simp add: get_value_def subscript_def str_KeyError_value split: option.split)
  have u: "get_item h self item None tr = (Inr (JDict kvs), self', tr') \<longrightarrow>
      get_uuid h self item tr =
        ((case map_of kvs ''id'' of
            Some v \<Rightarrow> Inr v
          | None \<Rightarrow> Inl (OnePasswordValueNotFound
                (''Value not found. Got error: '' @ [CHR 0x27] @ ''id'' @ [CHR 0x27]))),
         self', tr')"
    by (simp add: get_uuid_def subscript_def str_KeyError_id split: option.split)
  have lv: "launched (get_value h self item field tr)
       = tr @ [[''op'', ''item'', ''get'', item, ''--format'', ''json'', ''--vault'', vault self,
                ''--fields'', ''label='' @ field]]"
    by (simp add: get_value_launched get_item_cmd_def truthy_def)
  have lu: "launched (get_uuid h self item tr)
       = tr @ [[''op'', ''item'', ''get'', item, ''--format'', ''json'', ''--vault'', vault self]]"
    by (simp add: get_uuid_launched get_item_cmd_def truthy_def)
  from v u lv lu show ?thesis by blast
qed

lemma get_item_printed:
  "get_item (answering (printed out)) self item flds tr =
     ((case example_loads out of
         Inl (JSONDecodeError m) \<Rightarrow> Inl (OnePasswordJSONError (''Cannot JSON load response from 1Password. Got '' @ m))
       | Inl e \<Rightarrow> Inl e
       | Inr v \<Rightarrow> Inr v), self, tr @ [get_item_cmd self item flds])"
  by (simp add: get_item_def run_cmd_def subprocess_run_def answering_def printed_def
      split: sum.split exn.split)


theorem get_value_get_uuid_entry_witness:
  "get_value (answering (printed value_doc)) private_client ''foo'' ''value'' []
     = (Inr (JStr ''bar''), private_client,
        [[''op'', ''item'', ''get'', ''foo'', ''--format'', ''json'', ''--vault'', ''Private'',
          ''--fields'', ''label=value'']])
   \<and> get_uuid (answering (printed nonexistent_doc)) private_client ''Foo'' []
     = (Inl (OnePasswordValueNotFound (''Value not found. Got error: '' @ [CHR 0x27] @ ''id'' @ [CHR 0x27])),
        private_client,
        [[''op'', ''item'', ''get'', ''Foo'', ''--format'', ''json'', ''--vault'', ''Private'']])"
  using
    get_value_get_uuid_entry [of "answering (printed value_doc)" private_client "''foo''" "''value''" "[]"
      "[(''value'', JStr ''bar'')]" private_client
      "[[''op'', ''item'', ''get'', ''foo'', ''--format'', ''json'', ''--vault'', ''Private'', ''--fields'', ''label=value'']]"]
    get_value_get_uuid_entry [of "answering (printed nonexistent_doc)" private_client "''Foo''" "''x''" "[]"
      "[(''nonexistent'', JInt 1)]" private_client
      "[[''op'', ''item'', ''get'', ''Foo'', ''--format'', ''json'', ''--vault'', ''Private'']]"]
  by (simp add: get_item_printed example_loads_def docs get_item_cmd_def truthy_def private_client_def)


subsection \<open>Outcomes of the decoding methods\<close>

lemma get_item_raises:
  "spawn h tr (get_item_cmd self item flds) False = Inr r \<Longrightarrow> returncode r \<noteq> 0 \<Longrightarrow>
   get_item h self item flds tr =
     (Inl (OnePasswordRuntimeError
        (''Encountered an error when calling subprocess, got: '' @ bytes_repr (stderr r))),
      self, tr @ [get_item_cmd self item flds])"
  by (simp add: get_item_def run_cmd_nonzero)

lemma get_item_decodes:
  "spawn h tr (get_item_cmd self item flds) False = Inr r \<Longrightarrow> returncode r = 0 \<Longrightarrow>
   json_loads h (stdout r) = Inr v \<Longrightarrow>
   get_item h self item flds tr = (Inr v, self, tr @ [get_item_cmd self item flds])"
  by (simp add: get_item_def run_cmd_zero)

lemma get_item_converts:
  "spawn h tr (get_item_cmd self item flds) False = Inr r \<Longrightarrow> returncode r = 0 \<Longrightarrow>
   json_loads h (stdout r) = Inl (JSONDecodeError m) \<Longrightarrow>
   get_item h self item flds tr =
     (Inl (OnePasswordJSONError (''Cannot JSON load response from 1Password. Got '' @ m)),
      self, tr @ [get_item_cmd self item flds])"
  by (simp add: get_item_def run_cmd_zero)

lemma list_items_propagates:
  "spawn h tr (list_items_cmd self cats tags) False = Inr r \<Longrightarrow> returncode r = 0 \<Longrightarrow>
   list_items h self cats tags tr =
     (json_loads h (stdout r), self, tr @ [list_items_cmd self cats tags])"
  by (simp add: list_items_def run_cmd_zero)

lemma list_vaults_propagates:
  "spawn h tr [''op'', ''vault'', ''list'', ''--format'', ''json''] False = Inr r \<Longrightarrow>
   returncode r = 0 \<Longrightarrow>
   list_vaults h tr =
     (json_loads h (stdout r), tr @ [[''op'', ''vault'', ''list'', ''--format'', ''json'']])"
  by (simp add: list_vaults_def run_cmd_zero)

text \<open>
  Claim C9. The conversion to \<open>OnePasswordValueNotFound\<close> covers a missing key only.
  When the tool exits with status zero and its output decodes to a list, \<^verbatim>\<open>get_value\<close>
  and \<^verbatim>\<open>get_uuid\<close> fail with the \<open>TypeError\<close> of subscripting a list with a string,
  which is none of the four exception classes of the library.
\<close>

theorem list_result_not_converted:
  "(spawn h tr (get_item_cmd self item (Some [field])) False = Inr r \<and> returncode r = 0
      \<and> json_loads h (stdout r) = Inr (JList xs) \<longrightarrow>
      get_value h self item field tr
        = (Inl (TypeError ''list''), self, tr @ [get_item_cmd self item (Some [field])]))
   \<and> (spawn h tr (get_item_cmd self item None) False = Inr r \<and> returncode r = 0
      \<and> json_loads h (stdout r) = Inr (JList xs) \<longrightarrow>
      get_uuid h self item tr
        = (Inl (TypeError ''list''), self, tr @ [get_item_cmd self item None]))
   \<and> \<not> typed (TypeError ''list'')"
  by (simp add: get_value_def get_uuid_def get_item_decodes subscript_def)

theorem list_result_not_converted_witness:
  "get_value (answering (printed array_doc)) private_client ''foo'' ''value'' []
     = (Inl (TypeError ''list''), private_client,
        [[''op'', ''item'', ''get'', ''foo'', ''--format'', ''json'', ''--vault'', ''Private'',
          ''--fields'', ''label=value'']])
   \<and> get_uuid (answering (printed array_doc)) private_client ''foo'' []
     = (Inl (TypeError ''list''), private_client,
        [[''op'', ''item'', ''get'', ''foo'', ''--format'', ''json'', ''--vault'', ''Private'']])"
  using list_result_not_converted
    [of "answering (printed array_doc)" "[]" private_client "''foo''" "''value''"
      "\<lparr>returncode = 0, stdout = array_doc, stderr = []\<rparr>"
      "[JDict [(''id'', JStr ''item1''), (''value'', JStr ''bar'')]]"]
  by (simp add: answering_def printed_def example_loads_def docs get_item_cmd_def truthy_def
      private_client_def)

subsection \<open>The client handle\<close>

text \<open>
  Claim C8. No method assigns to an attribute of the client: after each of
  \<^verbatim>\<open>get_item\<close>, \<^verbatim>\<open>get_value\<close>, \<^verbatim>\<open>get_username\<close>, \<^verbatim>\<open>get_password\<close>, \<^verbatim>\<open>get_uuid\<close>,
  \<^verbatim>\<open>get_document\<close> and \<^verbatim>\<open>list_items\<close> the client (its vault and its version) is the
  client before the call, on every host and for every outcome, a result or any exception.
\<close>

theorem methods_leave_client:
  "client_after (get_item h self item flds tr) = self
   \<and> client_after (get_value h self item field tr) = self
   \<and> client_after (get_username h self item tr) = self
   \<and> client_after (get_password h self item tr) = self
   \<and> client_after (get_uuid h self item tr) = self
   \<and> client_after (get_document h self item tr) = self
   \<and> client_after (list_items h self cats tags tr) = self"
proof -
  have gi: "client_after (get_item h self item fs tr) = self" for fs
    by (simp add: client_after_def get_item_def split: prod.split sum.split exn.split)
  have gv: "client_after (get_value h self item f tr) = self" for f
    using gi [of "Some [f]"]
    by (auto simp: client_after_def get_value_def split: prod.split)
  have gu: "client_after (get_uuid h self item tr) = self"
    using gi [of None]
    by (auto simp: client_after_def get_uuid_def split: prod.split)
  have gd: "client_after (get_document h self item tr) = self"
    by (simp add: client_after_def get_document_def split: prod.split sum.split)
  have li: "client_after (list_items h self cats tags tr) = self"
    by (simp add: client_after_def list_items_def split: prod.split sum.split)
  from gi gv gu gd li show ?thesis
    by (simp add: get_username_def get_password_def)
qed

theorem methods_leave_client_witness:
  "client_after (get_value (answering (printed value_doc)) private_client ''foo'' ''value'' [])
     = private_client
   \<and> client_after (get_uuid (answering (printed nonexistent_doc)) private_client ''foo'' [])
     = private_client
   \<and> client_after (get_document (answering (failed 1 [] ''I have failed'')) private_client ''foo'' [])
     = private_client
   \<and> client_after (list_items (answering missing) private_client None None [])
     = private_client"
  using
    methods_leave_client [of "answering (printed value_doc)" private_client "''foo''" None "[]"
      "''value''" None None]
    methods_leave_client [of "answering (printed nonexistent_doc)" private_client "''foo''" None "[]"
      "''value''" None None]
    methods_leave_client [of "answering (failed 1 [] ''I have failed'')" private_client "''foo''" None "[]"
      "''value''" None None]
    methods_leave_client [of "answering missing" private_client "''foo''" None "[]"
      "''value''" None None]
  by simp

subsection \<open>The version probe and the constructor\<close>

lemma probe_once: "snd (get_op_cli_version h tr) = tr @ [[''op'', ''--version'']]"
  by (simp add: get_op_cli_version_def subprocess_run_def Let_def split: sum.split exn.split option.split)

lemma probe_missing:
  "spawn h tr [''op'', ''--version''] True = Inl (FileNotFoundError m) \<Longrightarrow>
   get_op_cli_version h tr =
     (Inl (OnePasswordCLINotFound ''Cannot find `op`, do you have 1password-cli installed?''),
      tr @ [[''op'', ''--version'']])"
  by (simp add: get_op_cli_version_def subprocess_run_def Let_def)

lemma probe_completed:
  "spawn h tr [''op'', ''--version''] True = Inr r \<Longrightarrow>
   get_op_cli_version h tr =
     ((case Version h (stdout r) of None \<Rightarrow> Inl (InvalidVersion (stdout r)) | Some v \<Rightarrow> Inr v),
      tr @ [[''op'', ''--version'']])"
  by (simp add: get_op_cli_version_def subprocess_run_def Let_def split: option.split)

lemma probe_Inr:
  "get_op_cli_version h tr = (Inr v, tr') \<Longrightarrow>
   \<exists>r. spawn h tr [''op'', ''--version''] True = Inr r \<and> Version h (stdout r) = Some v"
  by (auto simp: get_op_cli_version_def subprocess_run_def Let_def split: sum.splits exn.splits option.splits)

lemma init_Inr:
  "OnePassword_init h v tr = (Inr c, tr') \<Longrightarrow>
   get_op_cli_version h tr = (Inr (op_cli_version c), tr')
   \<and> vault c = (case v of None \<Rightarrow> ''Private'' | Some name \<Rightarrow> name)"
  by (auto simp: OnePassword_init_def Let_def split: prod.splits sum.splits)

text \<open>
  Claim C4. When launching \<^verbatim>\<open>op --version\<close> raises \<open>FileNotFoundError\<close>, the probe raises
  \<open>OnePasswordCLINotFound\<close> with the hint to install the tool, and so does the
  constructor, which probes first. Hence a constructor call that returns a client has
  launched \<^verbatim>\<open>op --version\<close> once, the launch completed, and the client's version is what
  the parser read from its output.
\<close>

theorem missing_tool:
  "(spawn h tr [''op'', ''--version''] True = Inl (FileNotFoundError m) \<longrightarrow>
      get_op_cli_version h tr =
        (Inl (OnePasswordCLINotFound ''Cannot find `op`, do you have 1password-cli installed?''),
         tr @ [[''op'', ''--version'']])
      \<and> OnePassword_init h v tr =
        (Inl (OnePasswordCLINotFound ''Cannot find `op`, do you have 1password-cli installed?''),
         tr @ [[''op'', ''--version'']]))
   \<and> (OnePassword_init h v tr = (Inr c, tr') \<longrightarrow>
      tr' = tr @ [[''op'', ''--version'']]
      \<and> (\<exists>r. spawn h tr [''op'', ''--version''] True = Inr r
               \<and> Version h (stdout r) = Some (op_cli_version c)))"
proof -
  have a: "spawn h tr [''op'', ''--version''] True = Inl (FileNotFoundError m) \<longrightarrow>
      get_op_cli_version h tr =
        (Inl (OnePasswordCLINotFound ''Cannot find `op`, do you have 1password-cli installed?''),
         tr @ [[''op'', ''--version'']])
      \<and> OnePassword_init h v tr =
        (Inl (OnePasswordCLINotFound ''Cannot find `op`, do you have 1password-cli installed?''),
         tr @ [[''op'', ''--version'']])"
    by (simp add: OnePassword_init_def probe_missing)
  have b: "OnePassword_init h v tr = (Inr c, tr') \<longrightarrow>
      tr' = tr @ [[''op'', ''--version'']]
      \<and> (\<exists>r. spawn h tr [''op'', ''--version''] True = Inr r
               \<and> Version h (stdout r) = Some (op_cli_version c))"
  proof
    assume i: "OnePassword_init h v tr = (Inr c, tr')"
    then have p: "get_op_cli_version h tr = (Inr (op_cli_version c), tr')"
      by (simp add: init_Inr)
    with probe_once [of h tr] have "tr' = tr @ [[''op'', ''--version'']]" by simp
    with probe_Inr [OF p] show "tr' = tr @ [[''op'', ''--version'']]
      \<and> (\<exists>r. spawn h tr [''op'', ''--version''] True = Inr r
               \<and> Version h (stdout r) = Some (op_cli_version c))" by simp
  qed
  from a b show ?thesis by simp
qed

theorem missing_tool_witness:
  "get_op_cli_version (answering missing) []
     = (Inl (OnePasswordCLINotFound ''Cannot find `op`, do you have 1password-cli installed?''),
        [[''op'', ''--version'']])
   \<and> OnePassword_init (answering missing) None []
     = (Inl (OnePasswordCLINotFound ''Cannot find `op`, do you have 1password-cli installed?''),
        [[''op'', ''--version'']])
   \<and> OnePassword_init (answering (printed version_text)) None []
     = (Inr private_client, [[''op'', ''--version'']])
   \<and> spawn (answering (printed version_text)) [] [''op'', ''--version''] True
     = Inr \<lparr>returncode = 0, stdout = version_text, stderr = []\<rparr>
   \<and> Version (answering (printed version_text)) version_text = Some [2, 23, 0]"
  using
    missing_tool [of "answering missing" "[]" "''[Errno 2] No such file or directory: op''" None
      private_client "[[''op'', ''--version'']]"]
    missing_tool [of "answering (printed version_text)" "[]" "[]" None
      private_client "[[''op'', ''--version'']]"]
  by (simp add: answering_def missing_def printed_def version_text_def example_Version_def
      private_client_def OnePassword_init_def get_op_cli_version_def subprocess_run_def)

subsection \<open>The exit status\<close>

lemma list_vaults_raises:
  "spawn h tr [''op'', ''vault'', ''list'', ''--format'', ''json''] False = Inr r \<Longrightarrow>
   returncode r \<noteq> 0 \<Longrightarrow>
   fst (list_vaults h tr) =
     Inl (OnePasswordRuntimeError
        (''Encountered an error when calling subprocess, got: '' @ bytes_repr (stderr r)))"
  by (simp add: list_vaults_def run_cmd_nonzero)

lemma get_document_raises:
  "spawn h tr (get_document_cmd self item) False = Inr r \<Longrightarrow> returncode r \<noteq> 0 \<Longrightarrow>
   fst (get_document h self item tr) =
     Inl (OnePasswordRuntimeError
        (''Encountered an error when calling subprocess, got: '' @ bytes_repr (stderr r)))"
  by (simp add: get_document_def run_cmd_nonzero)

lemma list_items_raises:
  "spawn h tr (list_items_cmd self cats tags) False = Inr r \<Longrightarrow> returncode r \<noteq> 0 \<Longrightarrow>
   fst (list_items h self cats tags tr) =
     Inl (OnePasswordRuntimeError
        (''Encountered an error when calling subprocess, got: '' @ bytes_repr (stderr r)))"
  by (simp add: list_items_def run_cmd_nonzero)

text \<open>
  Claim C10. The version probe does not look at the exit status. Whenever the launch of
  \<^verbatim>\<open>op --version\<close> completes, with any status, the captured standard output goes to the
  version parser and the probe's outcome is the parser's: a version, or
  \<open>InvalidVersion\<close>; it is never \<open>OnePasswordRuntimeError\<close>. Every other operation goes
  through \<^verbatim>\<open>_run_cmd\<close> and raises \<open>OnePasswordRuntimeError\<close> on a status that is not zero.
\<close>

theorem probe_ignores_exit_status:
  assumes "spawn h tr [''op'', ''--version''] True = Inr r"
  shows "get_op_cli_version h tr =
           ((case Version h (stdout r) of
               None \<Rightarrow> Inl (InvalidVersion (stdout r))
             | Some v \<Rightarrow> Inr v),
            tr @ [[''op'', ''--version'']])
       \<and> (\<forall>m. fst (get_op_cli_version h tr) \<noteq> Inl (OnePasswordRuntimeError m))
       \<and> (spawn h tr cmd False = Inr r' \<and> returncode r' \<noteq> 0 \<longrightarrow>
            fst (run_cmd h cmd tr) =
              Inl (OnePasswordRuntimeError
                 (''Encountered an error when calling subprocess, got: '' @ bytes_repr (stderr r'))))
       \<and> (spawn h tr [''op'', ''vault'', ''list'', ''--format'', ''json''] False = Inr r'
             \<and> returncode r' \<noteq> 0 \<longrightarrow>
            fst (list_vaults h tr) =
              Inl (OnePasswordRuntimeError
                 (''Encountered an error when calling subprocess, got: '' @ bytes_repr (stderr r'))))
       \<and> (spawn h tr (get_item_cmd self item flds) False = Inr r' \<and> returncode r' \<noteq> 0 \<longrightarrow>
            fst (get_item h self item flds tr) =
              Inl (OnePasswordRuntimeError
                 (''Encountered an error when calling subprocess, got: '' @ bytes_repr (stderr r'))))
       \<and> (spawn h tr (get_document_cmd self item) False = Inr r' \<and> returncode r' \<noteq> 0 \<longrightarrow>
            fst (get_document h self item tr) =
              Inl (OnePasswordRuntimeError
                 (''Encountered an error when calling subprocess, got: '' @ bytes_repr (stderr r'))))
       \<and> (spawn h tr (list_items_cmd self cats tags) False = Inr r' \<and> returncode r' \<noteq> 0 \<longrightarrow>
            fst (list_items h self cats tags tr) =
              Inl (OnePasswordRuntimeError
                 (''Encountered an error when calling subprocess, got: '' @ bytes_repr (stderr r'))))"
proof -
  have p: "get_op_cli_version h tr =
           ((case Version h (stdout r) of
               None \<Rightarrow> Inl (InvalidVersion (stdout r))
             | Some v \<Rightarrow> Inr v),
            tr @ [[''op'', ''--version'']])"
    using assms by (rule probe_completed)
  have n: "\<forall>m. fst (get_op_cli_version h tr) \<noteq> Inl (OnePasswordRuntimeError m)"
    by (simp add: p split: option.split)
  show ?thesis
    using p n
    by (simp add: run_cmd_nonzero list_vaults_raises get_item_raises get_document_raises
        list_items_raises)
qed

theorem probe_ignores_exit_status_witness:
  "get_op_cli_version (answering (failed 1 version_text ''boom'')) []
     = (Inr [2, 23, 0], [[''op'', ''--version'']])
   \<and> get_op_cli_version (answering (failed 1 [] ''boom'')) []
     = (Inl (InvalidVersion []), [[''op'', ''--version'']])
   \<and> fst (list_vaults (answering (failed 1 [] ''boom'')) [])
     = Inl (OnePasswordRuntimeError
         (''Encountered an error when calling subprocess, got: b'' @ [CHR 0x27] @ ''boom'' @ [CHR 0x27]))
   \<and> fst (get_document (answering (failed 1 [] ''boom'')) private_client ''foo'' [])
     = Inl (OnePasswordRuntimeError
         (''Encountered an error when calling subprocess, got: b'' @ [CHR 0x27] @ ''boom'' @ [CHR 0x27]))"
  using
    probe_ignores_exit_status [of "answering (failed 1 version_text ''boom'')" "[]"
      "\<lparr>returncode = 1, stdout = version_text, stderr = ''boom''\<rparr>"
      "[''op'', ''vault'', ''list'', ''--format'', ''json'']"
      "\<lparr>returncode = 1, stdout = version_text, stderr = ''boom''\<rparr>"
      private_client "''foo''" None None None]
    probe_ignores_exit_status [of "answering (failed 1 [] ''boom'')" "[]"
      "\<lparr>returncode = 1, stdout = [], stderr = ''boom''\<rparr>"
      "[''op'', ''vault'', ''list'', ''--format'', ''json'']"
      "\<lparr>returncode = 1, stdout = [], stderr = ''boom''\<rparr>"
      private_client "''foo''" None None None]
  by (simp add: answering_def failed_def version_text_def example_Version_def
      bytes_repr_def quoted_def quote_for_def escape_def)

subsection \<open>The vault name\<close>

lemma get_username_launched:
  "launched (get_username h self item tr) = tr @ [get_item_cmd self item (Some [''username''])]"
  by (simp add: get_username_def get_value_launched)

lemma get_password_launched:
  "launched (get_password h self item tr) = tr @ [get_item_cmd self item (Some [''password''])]"
  by (simp add: get_password_def get_value_launched)

text \<open>
  Claim C2 says that the vault name of every constructed client is a non-empty string.
  The constructor checks nothing: on a host where the tool is installed,
  \<^verbatim>\<open>OnePassword("")\<close> returns a client whose vault name is empty, and its
  \<^verbatim>\<open>get_document\<close> launches \<^verbatim>\<open>--vault\<close> followed by the empty string.
\<close>

theorem empty_vault_accepted:
  "OnePassword_init (answering (printed version_text)) (Some []) []
     = (Inr \<lparr>op_cli_version = [2, 23, 0], vault = []\<rparr>, [[''op'', ''--version'']])
   \<and> vault \<lparr>op_cli_version = [2, 23, 0 :: nat], vault = []\<rparr> = []
   \<and> launched (get_document (answering (printed version_text))
        \<lparr>op_cli_version = [2, 23, 0], vault = []\<rparr> ''foo'' [[''op'', ''--version'']])
     = [[''op'', ''--version''], [''op'', ''document'', ''get'', ''foo'', ''--vault'', []]]"
  by (simp add: OnePassword_init_def get_op_cli_version_def subprocess_run_def answering_def
      printed_def version_text_def example_Version_def get_document_launched get_document_cmd_def)

text \<open>
  Claim C2, amended. The vault name of a constructed client is the string given to the
  constructor, \<^verbatim>\<open>Private\<close> when none is given (it may be empty). Each of the three
  argument vectors the methods build holds \<^verbatim>\<open>--vault\<close> followed by exactly that string,
  and each of the seven methods launches one of these vectors, once.
\<close>

theorem vault_passed_verbatim:
  assumes "OnePassword_init h v tr0 = (Inr c, tr1)"
  shows "vault c = (case v of None \<Rightarrow> ''Private'' | Some name \<Rightarrow> name)
       \<and> take 2 (drop 6 (get_item_cmd c item flds)) = [''--vault'', vault c]
       \<and> take 2 (drop 4 (get_document_cmd c item)) = [''--vault'', vault c]
       \<and> take 2 (drop 3 (list_items_cmd c cats tags)) = [''--vault'', vault c]
       \<and> launched (get_item h c item flds tr) = tr @ [get_item_cmd c item flds]
       \<and> launched (get_value h c item field tr) = tr @ [get_item_cmd c item (Some [field])]
       \<and> launched (get_username h c item tr) = tr @ [get_item_cmd c item (Some [''username''])]
       \<and> launched (get_password h c item tr) = tr @ [get_item_cmd c item (Some [''password''])]
       \<and> launched (get_uuid h c item tr) = tr @ [get_item_cmd c item None]
       \<and> launched (get_document h c item tr) = tr @ [get_document_cmd c item]
       \<and> launched (list_items h c cats tags tr) = tr @ [list_items_cmd c cats tags]"
proof -
  have v: "vault c = (case v of None \<Rightarrow> ''Private'' | Some name \<Rightarrow> name)"
    using assms by (simp add: init_Inr)
  have gi: "take 2 (drop 6 (get_item_cmd c item flds)) = [''--vault'', vault c]"
    by (simp add: get_item_cmd_def Let_def)
  have gd: "take 2 (drop 4 (get_document_cmd c item)) = [''--vault'', vault c]"
    by (simp add: get_document_cmd_def)
  have li: "take 2 (drop 3 (list_items_cmd c cats tags)) = [''--vault'', vault c]"
    by (simp add: list_items_cmd_def Let_def)
  from v gi gd li show ?thesis
    by (simp add: get_item_launched get_value_launched get_username_launched
        get_password_launched get_uuid_launched get_document_launched list_items_launched)
qed

theorem vault_passed_verbatim_witness:
  "OnePassword_init (answering (printed version_text)) (Some ''Team Vault'') []
     = (Inr \<lparr>op_cli_version = [2, 23, 0], vault = ''Team Vault''\<rparr>, [[''op'', ''--version'']])
   \<and> launched (get_item (answering (printed version_text))
        \<lparr>op_cli_version = [2, 23, 0], vault = ''Team Vault''\<rparr> ''Foo'' None [[''op'', ''--version'']])
     = [[''op'', ''--version''],
        [''op'', ''item'', ''get'', ''Foo'', ''--format'', ''json'', ''--vault'', ''Team Vault'']]
   \<and> launched (list_items (answering (printed version_text))
        \<lparr>op_cli_version = [2, 23, 0], vault = ''Team Vault''\<rparr> None (Some [''coffee'']) [[''op'', ''--version'']])
     = [[''op'', ''--version''],
        [''op'', ''items'', ''list'', ''--vault'', ''Team Vault'', ''--format'', ''json'',
         ''--tags'', ''coffee'']]"
  using vault_passed_verbatim [of "answering (printed version_text)" "Some ''Team Vault''" "[]"
      "\<lparr>op_cli_version = [2, 23, 0], vault = ''Team Vault''\<rparr>" "[[''op'', ''--version'']]"
      "''Foo''" None None "Some [''coffee'']" "[[''op'', ''--version'']]"]
  by (simp add: OnePassword_init_def get_op_cli_version_def subprocess_run_def answering_def
      printed_def version_text_def example_Version_def get_item_cmd_def list_items_cmd_def
      truthy_def)

subsection \<open>Output that is not JSON\<close>

text \<open>
  Claim C1 says that \<^verbatim>\<open>get_item\<close>, \<^verbatim>\<open>list_items\<close> and \<^verbatim>\<open>list_vaults\<close> raise
  \<open>OnePasswordJSONError\<close> when the tool's output is not JSON. Only \<^verbatim>\<open>get_item\<close> has
  the handler. On the output \<^verbatim>\<open>Invalid JSON\<close> with exit status zero, \<^verbatim>\<open>list_items\<close>
  and \<^verbatim>\<open>list_vaults\<close> let the decoder's \<open>JSONDecodeError\<close> through, while \<^verbatim>\<open>get_item\<close>
  converts it.
\<close>

theorem decode_error_propagates:
  "list_items (answering (printed ''Invalid JSON'')) private_client (Some []) (Some []) []
     = (Inl (JSONDecodeError ''Expecting value: line 1 column 1 (char 0)''), private_client,
        [[''op'', ''items'', ''list'', ''--vault'', ''Private'', ''--format'', ''json'']])
   \<and> list_vaults (answering (printed ''Invalid JSON'')) []
     = (Inl (JSONDecodeError ''Expecting value: line 1 column 1 (char 0)''),
        [[''op'', ''vault'', ''list'', ''--format'', ''json'']])
   \<and> get_item (answering (printed ''Invalid JSON'')) private_client ''Foo'' None []
     = (Inl (OnePasswordJSONError
          ''Cannot JSON load response from 1Password. Got Expecting value: line 1 column 1 (char 0)''),
        private_client,
        [[''op'', ''item'', ''get'', ''Foo'', ''--format'', ''json'', ''--vault'', ''Private'']])"
proof -
  have l: "json_loads (answering (printed ''Invalid JSON'')) ''Invalid JSON''
      = Inl (JSONDecodeError ''Expecting value: line 1 column 1 (char 0)'')"
    by (simp add: answering_def example_loads_def docs)
  have s: "spawn (answering (printed ''Invalid JSON'')) tr cmd False
      = Inr \<lparr>returncode = 0, stdout = ''Invalid JSON'', stderr = []\<rparr>" for tr cmd
    by (simp add: answering_def printed_def)
  have a: "list_items (answering (printed ''Invalid JSON'')) private_client (Some []) (Some []) []
     = (Inl (JSONDecodeError ''Expecting value: line 1 column 1 (char 0)''), private_client,
        [[''op'', ''items'', ''list'', ''--vault'', ''Private'', ''--format'', ''json'']])"
    using list_items_propagates [OF s, of private_client "Some []" "Some []" "[]"] l
    by (simp add: list_items_cmd_def truthy_def private_client_def)
  have b: "list_vaults (answering (printed ''Invalid JSON'')) []
     = (Inl (JSONDecodeError ''Expecting value: line 1 column 1 (char 0)''),
        [[''op'', ''vault'', ''list'', ''--format'', ''json'']])"
    using list_vaults_propagates [OF s, of "[]"] l by simp
  have c: "get_item (answering (printed ''Invalid JSON'')) private_client ''Foo'' None []
     = (Inl (OnePasswordJSONError
          ''Cannot JSON load response from 1Password. Got Expecting value: line 1 column 1 (char 0)''),
        private_client,
        [[''op'', ''item'', ''get'', ''Foo'', ''--format'', ''json'', ''--vault'', ''Private'']])"
    by (simp add: get_item_printed example_loads_def docs get_item_cmd_def truthy_def
        private_client_def)
  from a b c show ?thesis by simp
qed

end
